theory Spec2Isabelle
  imports Complex_Main
begin

section \<open>The dashboard view of the attendance system\<close>

text \<open>
  A shallow embedding of \<^verbatim>\<open>client/src/pages/Dashboard.jsx\<close>: the component state, the
  summary reducer \<^verbatim>\<open>calculateSummary\<close>, the effect-driven fetch \<^verbatim>\<open>fetchDashboardData\<close>, the
  interval callback, the click handler of the refresh button and the guard of the admin link.

  Conventions of the embedding.
  \<^item> A JavaScript number is an IEEE 754 double (type \<open>number\<close> below): addition and division
    round to the nearest double, ties to even. Lengths and sizes are natural numbers; as the
    operand of a division a length is the double of the same value (an array has fewer than
    \<open>2 ^ 32\<close> elements).
  \<^item> An optional field, and a state variable that may hold \<^verbatim>\<open>null\<close>, is an \<^typ>\<open>'a option\<close>.
  \<^item> The backend, the clock, the toast service and the console are external: the backend is a
    parameter, the date string of the day is a parameter, and every request, notification and
    console line a handler produces is recorded in a list of events, in program order.
  \<^item> A handler is run to completion on the state it starts from; interleavings of several
    handlers in flight are outside the model.
\<close>

subsection \<open>Numbers\<close>

text \<open>
  The values of a double: \<^verbatim>\<open>NaN\<close>, the two infinities, the negative zero, and the finite
  doubles by their value (\<open>Fin 0\<close> is the positive zero). A stat of the backend carries a
  double, so a \<open>Fin r\<close> that is read has an \<open>r\<close> that a double can hold; every \<open>Fin r\<close>
  that the operations below return has one.
\<close>

datatype number = NaN | PosInf | NegInf | NegZero | Fin rat

text \<open>The number of binary digits of a positive integer, by halving.\<close>

function bit_length :: "int \<Rightarrow> nat" where
  "bit_length k = (if k \<le> 0 then 0 else Suc (bit_length (k div 2)))"
  by pat_completeness auto
termination
  by (relation "measure nat") auto

declare bit_length.simps [simp del]

definition pow2 :: "int \<Rightarrow> rat" where
  "pow2 k = (if 0 \<le> k then 2 ^ nat k else 1 / 2 ^ nat (- k))"

text \<open>
  The binary exponent of a rational \<open>x\<close> other than 0: the \<open>e\<close> with
  \<open>pow2 e \<le> \<bar>x\<bar>\<close> and \<open>\<bar>x\<bar> < pow2 (e + 1)\<close>. For \<open>1 \<le> \<bar>x\<bar>\<close> it is one less than the
  number of digits of the integer part; below 1 it is read from the reciprocal.
\<close>

definition exponent_of :: "rat \<Rightarrow> int" where
  "exponent_of x =
     (if 1 \<le> \<bar>x\<bar> then int (bit_length \<lfloor>\<bar>x\<bar>\<rfloor>) - 1
      else - int (bit_length (\<lceil>1 / \<bar>x\<bar>\<rceil> - 1)))"

text \<open>The nearest integer of a rational that is not negative, a tie going to the even one.\<close>

definition round_half_even :: "rat \<Rightarrow> int" where
  "round_half_even r =
     (let f = \<lfloor>r\<rfloor>; d = r - of_int f
      in if d < 1 / 2 then f else if 1 / 2 < d then f + 1 else if even f then f else f + 1)"

text \<open>
  Rounding of an exact result to binary64, to nearest, ties to even. A double has 53
  significant bits and its last bit weighs at least \<open>pow2 (- 1074)\<close>, so the result is the
  multiple of \<open>pow2 q\<close> nearest to \<open>x\<close>, with \<open>q\<close> the larger of \<open>e - 52\<close> and \<open>- 1074\<close>. A
  result that rounds to nothing is a zero with the sign of \<open>x\<close>; a result that reaches
  \<open>pow2 1024\<close> is an infinity.
\<close>

definition round_double :: "rat \<Rightarrow> number" where
  "round_double x =
     (if x = 0 then Fin 0
      else
        let q = max (exponent_of x - 52) (- 1074);
            m = round_half_even (\<bar>x\<bar> / pow2 q);
            y = of_int m * pow2 q
        in if m = 0 then (if x < 0 then NegZero else Fin 0)
           else if pow2 1024 \<le> y then (if x < 0 then NegInf else PosInf)
           else Fin (if x < 0 then - y else y))"

text \<open>The operator \<^verbatim>\<open>+\<close> on two numbers.\<close>

fun number_add :: "number \<Rightarrow> number \<Rightarrow> number" where
  "number_add NaN y = NaN"
| "number_add x NaN = NaN"
| "number_add PosInf NegInf = NaN"
| "number_add NegInf PosInf = NaN"
| "number_add PosInf y = PosInf"
| "number_add NegInf y = NegInf"
| "number_add x PosInf = PosInf"
| "number_add x NegInf = NegInf"
| "number_add NegZero y = y"
| "number_add x NegZero = x"
| "number_add (Fin a) (Fin b) = round_double (a + b)"

fun is_infinite :: "number \<Rightarrow> bool" where
  "is_infinite PosInf = True"
| "is_infinite NegInf = True"
| "is_infinite x = False"

fun is_zero :: "number \<Rightarrow> bool" where
  "is_zero NegZero = True"
| "is_zero (Fin a) = (a = 0)"
| "is_zero x = False"

fun is_negative :: "number \<Rightarrow> bool" where
  "is_negative NegInf = True"
| "is_negative NegZero = True"
| "is_negative (Fin a) = (a < 0)"
| "is_negative x = False"

fun rat_of :: "number \<Rightarrow> rat" where
  "rat_of (Fin a) = a"
| "rat_of x = 0"

text \<open>The operator \<^verbatim>\<open>/\<close> on two numbers.\<close>

definition number_div :: "number \<Rightarrow> number \<Rightarrow> number" where
  "number_div x y =
     (if x = NaN \<or> y = NaN then NaN
      else if is_infinite x \<and> is_infinite y then NaN
      else if is_zero x \<and> is_zero y then NaN
      else
        let negative = (is_negative x \<noteq> is_negative y)
        in if is_infinite x \<or> is_zero y then (if negative then NegInf else PosInf)
           else if is_infinite y \<or> is_zero x then (if negative then NegZero else Fin 0)
           else round_double (rat_of x / rat_of y))"

text \<open>The operator \<^verbatim>\<open><\<close> on two numbers: false when one of them is \<^verbatim>\<open>NaN\<close>.\<close>

definition number_less :: "number \<Rightarrow> number \<Rightarrow> bool" where
  "number_less x y =
     (if x = NaN \<or> y = NaN then False
      else if x = PosInf \<or> y = NegInf then False
      else if x = NegInf \<or> y = PosInf then True
      else rat_of x < rat_of y)"

subsection \<open>Data\<close>

text \<open>
  The value of \<^verbatim>\<open>stat.student\<close>. A JavaScript \<^verbatim>\<open>Set\<close> compares members with SameValueZero:
  two strings are the same member when they have the same characters, two objects when they are
  the same reference. Equality of this datatype is that comparison: an identifier string, or
  the reference (heap address) of an object.
\<close>

datatype student_ref = StudentId string | StudentObj nat

record attendance_stat =
  student :: student_ref
  presentPercentage :: number
  startTime :: "string option"
  endTime :: "string option"

datatype verification_method = Face | OtherMethod string

datatype attendance_status = Present | Absent

text \<open>
  A row of today's attendance: \<^verbatim>\<open>_id\<close>, \<^verbatim>\<open>student.name\<close>, \<^verbatim>\<open>student.registrationNumber\<close>,
  \<^verbatim>\<open>createdAt\<close>, \<^verbatim>\<open>startTime\<close>, \<^verbatim>\<open>endTime\<close>, \<^verbatim>\<open>verificationMethod\<close>, \<^verbatim>\<open>status\<close>.
\<close>

datatype attendance_record =
  AttendanceRecord string string string nat "string option" "string option"
    verification_method attendance_status

record summary =
  totalStudents :: nat
  averageAttendance :: number
  presentToday :: nat
  belowThreshold :: nat

subsection \<open>The JavaScript \<^verbatim>\<open>Set\<close>\<close>

text \<open>
  A \<^verbatim>\<open>Set\<close> keeps its members in insertion order and ignores the insertion of a member it
  already has: a list without repetition. \<^verbatim>\<open>new Set(xs)\<close> adds the elements of \<^verbatim>\<open>xs\<close> from
  left to right; \<^verbatim>\<open>Array.from\<close> reads the members in insertion order; \<^verbatim>\<open>size\<close> is the length.
\<close>

definition Set_add :: "'a \<Rightarrow> 'a list \<Rightarrow> 'a list" where
  "Set_add x members = (if x \<in> set members then members else members @ [x])"

definition new_Set :: "'a list \<Rightarrow> 'a list" where
  "new_Set xs = foldl (\<lambda>members x. Set_add x members) [] xs"

subsection \<open>The summary reducer\<close>

definition calculateSummary :: "attendance_stat list option \<Rightarrow> attendance_record list \<Rightarrow> summary" where
  "calculateSummary stats_now recent =
     (case stats_now of
        None \<Rightarrow>
          \<lparr>totalStudents = 0, averageAttendance = Fin 0, presentToday = 0,
           belowThreshold = 0\<rparr>
      | Some sts \<Rightarrow>
          if length sts = 0 then
            \<lparr>totalStudents = 0, averageAttendance = Fin 0, presentToday = 0,
             belowThreshold = 0\<rparr>
          else
            let uniqueStudents = new_Set (map student sts) in
            \<lparr>totalStudents = length uniqueStudents,
             averageAttendance =
               number_div
                 (foldl (\<lambda>acc stat. number_add acc (presentPercentage stat)) (Fin 0) sts)
                 (Fin (of_nat (length sts))),
             presentToday = length recent,
             belowThreshold =
               length (filter (\<lambda>stat. number_less (presentPercentage stat) (Fin 75)) sts)\<rparr>)"

subsection \<open>Request URLs\<close>

text \<open>
  \<^verbatim>\<open>str.split('-')\<close> scans the string once: a separator closes the current piece and opens
  an empty one, any other character is appended to the current piece, and the end of the string
  closes the last piece (so the result is never empty, and \<^verbatim>\<open>''.split('-')\<close> is \<^verbatim>\<open>['']\<close>).
\<close>

fun split_scan :: "char \<Rightarrow> string \<Rightarrow> string \<Rightarrow> string list" where
  "split_scan sep piece [] = [piece]"
| "split_scan sep piece (c # cs) =
     (if c = sep then piece # split_scan sep [] cs else split_scan sep (piece @ [c]) cs)"

definition js_split :: "char \<Rightarrow> string \<Rightarrow> string list" where
  "js_split sep s = split_scan sep [] s"

text \<open>
  The destructuring \<^verbatim>\<open>const [startTime, endTime] = parts\<close> reads \<^verbatim>\<open>parts[0]\<close> and \<^verbatim>\<open>parts[1]\<close>;
  an index past the end reads \<^verbatim>\<open>undefined\<close>, and a template literal prints \<^verbatim>\<open>undefined\<close> as
  the nine characters of its name.
\<close>

definition element_at :: "'a list \<Rightarrow> nat \<Rightarrow> 'a option" where
  "element_at xs i = (if i < length xs then Some (xs ! i) else None)"

definition template_text :: "string option \<Rightarrow> string" where
  "template_text v = (case v of None \<Rightarrow> ''undefined'' | Some s \<Rightarrow> s)"

text \<open>
  The effect, the interval callback and the click handler each build their URLs with the same
  statements; the two functions below are those statements, with the selected filter and the
  date string \<^verbatim>\<open>new Date().toISOString().split('T')[0]\<close> as arguments.
\<close>

definition statsUrl :: "string \<Rightarrow> string" where
  "statsUrl selected =
     (if selected \<noteq> ''all'' then
        let parts = js_split (CHR ''-'') selected;
            startT = element_at parts 0;
            endT = element_at parts 1
        in ''/api/attendance/stats'' @ ''?startTime='' @ template_text startT
             @ ''&endTime='' @ template_text endT
      else ''/api/attendance/stats'')"

definition attendanceUrl :: "string \<Rightarrow> string \<Rightarrow> string" where
  "attendanceUrl today selected =
     (if selected \<noteq> ''all'' then
        let parts = js_split (CHR ''-'') selected;
            startT = element_at parts 0;
            endT = element_at parts 1
        in ''/api/attendance/timeslot?date='' @ today @ ''&startTime='' @ template_text startT
             @ ''&endTime='' @ template_text endT
      else ''/api/attendance/date/'' @ today)"

subsection \<open>Component state, backend and events\<close>

record dashboard_state =
  stats :: "attendance_stat list option"
  recentAttendance :: "attendance_record list"
  isLoading :: bool
  refreshKey :: nat
  timeSlots :: "string list"
  selectedTimeSlot :: string

text \<open>The values given to \<^verbatim>\<open>useState\<close>.\<close>

definition initial_state :: dashboard_state where
  "initial_state =
     \<lparr>stats = None, recentAttendance = [], isLoading = True, refreshKey = 0,
      timeSlots = [], selectedTimeSlot = ''all''\<rparr>"

text \<open>
  \<^verbatim>\<open>api.get(url)\<close> resolves with the response data or rejects. The stats endpoint answers
  with an array of stats, the two record endpoints with an array of records, so the client is
  one function for each shape.
\<close>

datatype request_error = NetworkError | HttpStatus nat

record backend =
  get_stats :: "string \<Rightarrow> request_error + attendance_stat list"
  get_records :: "string \<Rightarrow> request_error + attendance_record list"

datatype event =
    ApiGet string
  | ConsoleError string
  | ConsoleLog string
  | ToastError string
  | ToastSuccess string


fun is_toast :: "event \<Rightarrow> bool" where
  "is_toast (ToastError msg) = True"
| "is_toast (ToastSuccess msg) = True"
| "is_toast other = False"

subsection \<open>The effect: \<^verbatim>\<open>fetchDashboardData\<close>\<close>

text \<open>A string is truthy when it is present and not empty.\<close>

definition truthy :: "string option \<Rightarrow> bool" where
  "truthy v = (case v of None \<Rightarrow> False | Some s \<Rightarrow> s \<noteq> [])"

text \<open>The \<^verbatim>\<open>forEach\<close> over the response that fills the \<^verbatim>\<open>Set\<close> of slots, then \<^verbatim>\<open>Array.from\<close>.\<close>

definition extractTimeSlots :: "attendance_stat list \<Rightarrow> string list" where
  "extractTimeSlots response =
     foldl (\<lambda>slots stat.
              if truthy (startTime stat) \<and> truthy (endTime stat)
              then Set_add (template_text (startTime stat) @ ''-'' @ template_text (endTime stat)) slots
              else slots)
       [] response"

text \<open>
  The \<^verbatim>\<open>try\<close> block: the state and the events so far, and the rejection that left the block,
  if any. The second request is awaited after the first, so it is not issued when the first
  rejects, and the state set before a rejection stays set.
\<close>

definition fetchDashboardData_try ::
  "backend \<Rightarrow> string \<Rightarrow> dashboard_state \<Rightarrow> dashboard_state \<times> event list \<times> request_error option" where
  "fetchDashboardData_try api today s0 =
     (let s1 = s0\<lparr>isLoading := True\<rparr>;
          url1 = statsUrl (selectedTimeSlot s0)
      in case get_stats api url1 of
           Inl err \<Rightarrow> (s1, [ApiGet url1], Some err)
         | Inr statsData \<Rightarrow>
             let s2 = s1\<lparr>stats := Some statsData\<rparr>;
                 s3 = s2\<lparr>timeSlots := extractTimeSlots statsData\<rparr>;
                 url2 = attendanceUrl today (selectedTimeSlot s0)
             in case get_records api url2 of
                  Inl err \<Rightarrow> (s3, [ApiGet url1, ApiGet url2], Some err)
                | Inr attendanceData \<Rightarrow>
                    (s3\<lparr>recentAttendance := attendanceData\<rparr>, [ApiGet url1, ApiGet url2], None))"

text \<open>The \<^verbatim>\<open>catch\<close> and \<^verbatim>\<open>finally\<close> clauses around it.\<close>

definition fetchDashboardData ::
  "backend \<Rightarrow> string \<Rightarrow> dashboard_state \<Rightarrow> dashboard_state \<times> event list" where
  "fetchDashboardData api today s0 =
     (case fetchDashboardData_try api today s0 of
        (s, evs, thrown) \<Rightarrow>
          let evs' = (case thrown of
                        None \<Rightarrow> evs
                      | Some err \<Rightarrow>
                          evs @ [ConsoleError ''Error fetching dashboard data:'',
                                 ToastError ''Failed to load dashboard data''])
          in (s\<lparr>isLoading := False\<rparr>, evs'))"

subsection \<open>The interval callback\<close>

definition refreshInterval_tick ::
  "backend \<Rightarrow> string \<Rightarrow> dashboard_state \<Rightarrow> dashboard_state \<times> event list" where
  "refreshInterval_tick api today s0 =
     (let url = attendanceUrl today (selectedTimeSlot s0)
      in case get_records api url of
           Inr attendanceData \<Rightarrow>
             (s0\<lparr>recentAttendance := attendanceData\<rparr>,
              [ApiGet url, ConsoleLog ''Dashboard data refreshed''])
         | Inl err \<Rightarrow>
             (s0, [ApiGet url, ConsoleError ''Error refreshing attendance data:'']))"

subsection \<open>The refresh button\<close>

text \<open>
  Both requests are created before \<^verbatim>\<open>Promise.all\<close> looks at either result, so both are
  issued whatever the other one does; \<^verbatim>\<open>Promise.all\<close> fulfils when both fulfil and rejects
  when one rejects. \<^verbatim>\<open>finally\<close> runs after either callback.
\<close>

definition refresh_onClick ::
  "backend \<Rightarrow> string \<Rightarrow> dashboard_state \<Rightarrow> dashboard_state \<times> event list" where
  "refresh_onClick api today s0 =
     (let s1 = s0\<lparr>isLoading := True\<rparr>;
          s2 = s1\<lparr>refreshKey := refreshKey s1 + 1\<rparr>;
          url1 = statsUrl (selectedTimeSlot s0);
          url2 = attendanceUrl today (selectedTimeSlot s0);
          statsRes = get_stats api url1;
          attendanceRes = get_records api url2;
          issued = [ApiGet url1, ApiGet url2];
          (s3, evs) =
            (case statsRes of
               Inr statsData \<Rightarrow>
                 (case attendanceRes of
                    Inr attendanceData \<Rightarrow>
                      (s2\<lparr>stats := Some statsData, recentAttendance := attendanceData\<rparr>,
                       issued @ [ToastSuccess ''Dashboard refreshed''])
                  | Inl err \<Rightarrow>
                      (s2, issued @ [ConsoleError ''Error refreshing data:'',
                                     ToastError ''Failed to refresh data'']))
             | Inl err \<Rightarrow>
                 (s2, issued @ [ConsoleError ''Error refreshing data:'',
                                ToastError ''Failed to refresh data'']))
      in (s3\<lparr>isLoading := False\<rparr>, evs))"

subsection \<open>The admin link\<close>

text \<open>
  The user of the auth context is \<^verbatim>\<open>null\<close> or an object; its \<^verbatim>\<open>role\<close> may be missing.
  The view is \<^verbatim>\<open>isLoading ? spinner : content\<close>, and the link is the last element of the
  content, under \<^verbatim>\<open>user && user.role === 'admin'\<close>: while the loading flag is set the spinner
  is all that is rendered.
\<close>

record auth_user =
  role :: "string option"

definition adminLinkRendered :: "dashboard_state \<Rightarrow> auth_user option \<Rightarrow> bool" where
  "adminLinkRendered s user =
     (if isLoading s then False
      else (case user of None \<Rightarrow> False | Some u \<Rightarrow> role u = Some ''admin''))"

subsection \<open>Sample data\<close>

definition stat_A50 :: attendance_stat where
  "stat_A50 = \<lparr>student = StudentId ''A'', presentPercentage = Fin 50,
                startTime = None, endTime = None\<rparr>"





definition admin_user :: auth_user where
  "admin_user = \<lparr>role = Some ''admin''\<rparr>"

definition loaded_state :: dashboard_state where
  "loaded_state = initial_state\<lparr>isLoading := False\<rparr>"


definition record_absent :: attendance_record where
  "record_absent =
     AttendanceRecord ''r1'' ''Asha'' ''REG001'' 0 None None (OtherMethod ''manual'') Absent"

definition stat_slot_0910 :: attendance_stat where
  "stat_slot_0910 = \<lparr>student = StudentId ''A'', presentPercentage = Fin 80,
                      startTime = Some ''09:00'', endTime = Some ''10:00''\<rparr>"

definition stat_empty_start :: attendance_stat where
  "stat_empty_start = \<lparr>student = StudentId ''B'', presentPercentage = Fin 60,
                        startTime = Some [], endTime = Some ''10:00''\<rparr>"

definition api_up :: backend where
  "api_up = \<lparr>get_stats = (\<lambda>url. Inr [stat_slot_0910, stat_empty_start, stat_slot_0910]),
             get_records = (\<lambda>url. Inr [record_absent])\<rparr>"

definition api_records_down :: backend where
  "api_records_down = \<lparr>get_stats = (\<lambda>url. Inr [stat_slot_0910]),
                       get_records = (\<lambda>url. Inl NetworkError)\<rparr>"

definition api_down :: backend where
  "api_down = \<lparr>get_stats = (\<lambda>url. Inl (HttpStatus 500)),
               get_records = (\<lambda>url. Inl (HttpStatus 500))\<rparr>"

section \<open>Properties\<close>

subsection \<open>The \<^verbatim>\<open>Set\<close> model\<close>

lemma foldl_Set_add_set:
  "set (foldl (\<lambda>members x. Set_add x members) acc xs) = set acc \<union> set xs"
  by (induction xs arbitrary: acc) (auto simp: Set_add_def)

lemma foldl_Set_add_distinct:
  "distinct acc \<Longrightarrow> distinct (foldl (\<lambda>members x. Set_add x members) acc xs)"
  by (induction xs arbitrary: acc) (auto simp: Set_add_def)

lemma set_new_Set: "set (new_Set xs) = set xs"
  by (simp add: new_Set_def foldl_Set_add_set)

lemma distinct_new_Set: "distinct (new_Set xs)"
  by (simp add: new_Set_def foldl_Set_add_distinct)


subsection \<open>Numbers\<close>

text \<open>The digits of a positive integer bound it by powers of two.\<close>

lemma bit_length_pos: "0 < k \<Longrightarrow> 0 < bit_length k"
  by (subst bit_length.simps) simp

lemma bit_length_bounds:
  "0 < k \<Longrightarrow> 2 ^ (bit_length k - 1) \<le> k \<and> k < 2 ^ bit_length k"
proof (induction k rule: bit_length.induct)
  case (1 k)
  show ?case
  proof (cases "k = 1")
    case True
    then show ?thesis by (simp add: bit_length.simps)
  next
    case False
    with "1.prems" have half: "0 < k div 2" by simp
    with "1.IH" "1.prems" have ih: "2 ^ (bit_length (k div 2) - 1) \<le> k div 2"
        "k div 2 < 2 ^ bit_length (k div 2)"
      by simp_all
    have len: "bit_length k = Suc (bit_length (k div 2))"
      using "1.prems" by (subst bit_length.simps) simp
    from bit_length_pos [OF half] obtain n where n: "bit_length (k div 2) = Suc n"
      by (cases "bit_length (k div 2)") simp_all
    from ih n have "2 * 2 ^ n \<le> 2 * (k div 2)" "2 * (k div 2) + 1 < 2 * 2 ^ Suc n"
      by simp_all
    then have "2 ^ Suc n \<le> k" "k < 2 ^ Suc (Suc n)"
      by simp_all
    with len n show ?thesis by simp
  qed
qed

lemma pow2_pos: "0 < pow2 k"
  by (simp add: pow2_def)

lemma pow2_nat: "pow2 (int n) = 2 ^ n"
  by (simp add: pow2_def)

lemma pow2_neg_nat: "pow2 (- int n) = 1 / 2 ^ n"
  by (auto simp: pow2_def)

lemma pow2_Suc: "pow2 (k + 1) = 2 * pow2 k"
proof -
  consider "0 \<le> k" | "k = - 1" | "k < - 1" by linarith
  then show ?thesis
  proof cases
    case 1
    then show ?thesis by (simp add: pow2_def nat_add_distrib)
  next
    case 2
    then show ?thesis by (simp add: pow2_def)
  next
    case 3
    then have "nat (- k) = Suc (nat (- k - 1))" by simp
    with 3 show ?thesis by (simp add: pow2_def)
  qed
qed

lemma power2_le_of_int:
  fixes k :: int
  assumes "2 ^ n \<le> k"
  shows "(2::rat) ^ n \<le> of_int k"
proof -
  from assms have "(of_int (2 ^ n) :: rat) \<le> of_int k"
    by (simp only: of_int_le_iff)
  then show ?thesis by simp
qed

lemma of_int_less_power2:
  fixes k :: int
  assumes "k < 2 ^ n"
  shows "(of_int (k + 1) :: rat) \<le> 2 ^ n"
proof -
  from assms have "k + 1 \<le> 2 ^ n" by simp
  then have "(of_int (k + 1) :: rat) \<le> of_int (2 ^ n)"
    by (simp only: of_int_le_iff)
  then show ?thesis by simp
qed

text \<open>The exponent is the one its definition announces.\<close>

lemma exponent_of_bounds:
  assumes "x \<noteq> 0"
  shows "pow2 (exponent_of x) \<le> \<bar>x\<bar> \<and> \<bar>x\<bar> < pow2 (exponent_of x + 1)"
proof (cases "1 \<le> \<bar>x\<bar>")
  case True
  define k where "k = \<lfloor>\<bar>x\<bar>\<rfloor>"
  from True have kpos: "0 < k" by (simp add: k_def)
  from bit_length_pos [OF kpos] obtain n where n: "bit_length k = Suc n"
    by (cases "bit_length k") simp_all
  from bit_length_bounds [OF kpos] n have b: "2 ^ n \<le> k" "k < 2 ^ Suc n" by simp_all
  have e: "exponent_of x = int n"
    using True n by (simp add: exponent_of_def k_def)
  have "of_int k \<le> \<bar>x\<bar>" "\<bar>x\<bar> < of_int (k + 1)"
    unfolding k_def by linarith+
  with power2_le_of_int [OF b(1)] of_int_less_power2 [OF b(2)]
  have "2 ^ n \<le> \<bar>x\<bar>" "\<bar>x\<bar> < 2 ^ Suc n" by linarith+
  then show ?thesis
    unfolding e pow2_Suc pow2_nat by simp
next
  case False
  with assms have x: "0 < \<bar>x\<bar>" "\<bar>x\<bar> < 1" by simp_all
  define y where "y = 1 / \<bar>x\<bar>"
  from x have y: "1 < y" by (simp add: y_def)
  define k where "k = \<lceil>y\<rceil> - 1"
  from y have kpos: "0 < k" unfolding k_def by linarith
  from bit_length_pos [OF kpos] obtain n where n: "bit_length k = Suc n"
    by (cases "bit_length k") simp_all
  from bit_length_bounds [OF kpos] n have b: "2 ^ n \<le> k" "k < 2 ^ Suc n" by simp_all
  have e: "exponent_of x = - int (Suc n)"
    using False n by (simp add: exponent_of_def k_def y_def)
  have "of_int k < y" "y \<le> of_int (k + 1)"
    unfolding k_def by linarith+
  with power2_le_of_int [OF b(1)] of_int_less_power2 [OF b(2)]
  have yb: "2 ^ n < y" "y \<le> 2 ^ Suc n" by linarith+
  have xy: "\<bar>x\<bar> = 1 / y" using x by (simp add: y_def)
  have p: "(0::rat) < 2 ^ n" by simp
  from yb(2) y have "1 / 2 ^ Suc n \<le> 1 / y"
    by (intro divide_left_mono) simp_all
  moreover from y have ypos: "0 < y" by simp
  from yb(1) p ypos have "1 / y < 1 / 2 ^ n"
    by (simp add: divide_strict_left_mono)
  ultimately have "pow2 (- int (Suc n)) \<le> \<bar>x\<bar>" "\<bar>x\<bar> < pow2 (- int n)"
    unfolding xy pow2_neg_nat by simp_all
  moreover have "- int (Suc n) + 1 = - int n" by simp
  ultimately show ?thesis
    unfolding e by simp
qed

text \<open>The rounded significand is within a half of the exact one.\<close>

lemma round_half_even_near: "\<bar>of_int (round_half_even r) - r\<bar> \<le> 1 / 2"
proof -
  have "of_int \<lfloor>r\<rfloor> \<le> r" "r < of_int \<lfloor>r\<rfloor> + 1"
    by linarith+
  then show ?thesis
    unfolding round_half_even_def Let_def by auto
qed











subsection \<open>The summary\<close>





text \<open>
  Claim C2, as stated: \<^verbatim>\<open>presentToday\<close> is the length of the records array for every stats
  array, also an empty one. The guard at the head of \<^verbatim>\<open>calculateSummary\<close> returns the zero
  summary for empty stats, whatever the records: with no stats and one record of today,
  \<^verbatim>\<open>presentToday\<close> is 0 and not 1.
\<close>

theorem presentToday_stats_empty_counterexample:
  "presentToday (calculateSummary (Some []) [record_absent]) \<noteq> length [record_absent]"
  by (simp add: calculateSummary_def)

text \<open>
  Claim C2, amended. When the stats array is not empty, \<^verbatim>\<open>presentToday\<close> is the length of
  the records array, with no deduplication and no filtering by status; when the stats are
  \<^verbatim>\<open>null\<close> or an empty array, \<^verbatim>\<open>presentToday\<close> is 0 whatever the records are.
\<close>

theorem presentToday_raw_count:
  "(sts \<noteq> [] \<longrightarrow> presentToday (calculateSummary (Some sts) recent) = length recent)
   \<and> presentToday (calculateSummary (Some []) recent) = 0
   \<and> presentToday (calculateSummary None recent) = 0"
  by (simp add: calculateSummary_def Let_def)

text \<open>Two rows marked absent, twice the same row: counted as 2 beside one stat, as 0 beside none.\<close>

theorem presentToday_raw_count_example:
  "[stat_A50] \<noteq> []
   \<and> presentToday (calculateSummary (Some [stat_A50]) [record_absent, record_absent]) = 2
   \<and> presentToday (calculateSummary (Some []) [record_absent, record_absent]) = 0
   \<and> presentToday (calculateSummary None [record_absent, record_absent]) = 0"
  using presentToday_raw_count [of "[stat_A50]" "[record_absent, record_absent]"]
  by simp

text \<open>
  Claim C3. For an empty stats array and an empty records array the summary is the record of
  four zeros; so it is for the initial \<^verbatim>\<open>null\<close> stats. No statement of \<^verbatim>\<open>calculateSummary\<close>
  can raise on an array of stats and an array of records, and the embedding is a total
  function: the summary is returned.
\<close>

theorem calculateSummary_empty:
  "calculateSummary (Some []) []
     = \<lparr>totalStudents = 0, averageAttendance = Fin 0, presentToday = 0, belowThreshold = 0\<rparr>
   \<and> calculateSummary None []
     = \<lparr>totalStudents = 0, averageAttendance = Fin 0, presentToday = 0, belowThreshold = 0\<rparr>"
  by (simp add: calculateSummary_def)

subsection \<open>Request URLs\<close>















subsection \<open>The time-slot options\<close>

lemma slots_fold_as_Set:
  "foldl (\<lambda>slots stat.
            if truthy (startTime stat) \<and> truthy (endTime stat)
            then Set_add (template_text (startTime stat) @ ''-'' @ template_text (endTime stat)) slots
            else slots) acc response
   = foldl (\<lambda>members x. Set_add x members) acc
       (map (\<lambda>stat. template_text (startTime stat) @ ''-'' @ template_text (endTime stat))
          (filter (\<lambda>stat. truthy (startTime stat) \<and> truthy (endTime stat)) response))"
  by (induction response arbitrary: acc) simp_all

lemma extractTimeSlots_new_Set:
  "extractTimeSlots response
   = new_Set (map (\<lambda>stat. template_text (startTime stat) @ ''-'' @ template_text (endTime stat))
       (filter (\<lambda>stat. truthy (startTime stat) \<and> truthy (endTime stat)) response))"
  unfolding extractTimeSlots_def new_Set_def by (rule slots_fold_as_Set)

lemma truthy_iff: "truthy v \<longleftrightarrow> (\<exists>s. v = Some s \<and> s \<noteq> [])"
  by (cases v) (simp_all add: truthy_def)

lemma distinct_extractTimeSlots: "distinct (extractTimeSlots response)"
  by (simp add: extractTimeSlots_new_Set distinct_new_Set)

lemma set_extractTimeSlots:
  "set (extractTimeSlots response)
   = {a @ ''-'' @ b | a b. a \<noteq> [] \<and> b \<noteq> []
        \<and> (\<exists>stat\<in>set response. startTime stat = Some a \<and> endTime stat = Some b)}"
  (is "?L = ?R")
proof (intro set_eqI iffI)
  fix slot
  assume "slot \<in> ?L"
  then obtain stat where stat: "stat \<in> set response"
      "truthy (startTime stat)" "truthy (endTime stat)"
      "slot = template_text (startTime stat) @ ''-'' @ template_text (endTime stat)"
    unfolding extractTimeSlots_new_Set set_new_Set by auto
  from stat(2,3) obtain a b where ab: "startTime stat = Some a" "a \<noteq> []"
      "endTime stat = Some b" "b \<noteq> []"
    unfolding truthy_iff by blast
  with stat(4) have "slot = a @ ''-'' @ b"
    by (simp add: template_text_def)
  with stat(1) ab show "slot \<in> ?R" by blast
next
  fix slot
  assume "slot \<in> ?R"
  then obtain a b stat where ab: "slot = a @ ''-'' @ b" "a \<noteq> []" "b \<noteq> []"
      "stat \<in> set response" "startTime stat = Some a" "endTime stat = Some b"
    by blast
  then have "truthy (startTime stat) \<and> truthy (endTime stat)"
    and "slot = template_text (startTime stat) @ ''-'' @ template_text (endTime stat)"
    by (simp_all add: truthy_def template_text_def)
  with ab(4) show "slot \<in> ?L"
    unfolding extractTimeSlots_new_Set set_new_Set by auto
qed

lemma extractTimeSlots_skip:
  assumes "\<not> (truthy (startTime stat) \<and> truthy (endTime stat))"
  shows "extractTimeSlots (before @ stat # after) = extractTimeSlots (before @ after)"
proof -
  have "filter (\<lambda>stat. truthy (startTime stat) \<and> truthy (endTime stat)) (before @ stat # after)
        = filter (\<lambda>stat. truthy (startTime stat) \<and> truthy (endTime stat)) (before @ after)"
    using assms by auto
  then show ?thesis
    by (simp only: extractTimeSlots_new_Set)
qed

lemma extractTimeSlots_sample:
  "extractTimeSlots [stat_slot_0910, stat_empty_start, stat_slot_0910] = [''09:00-10:00'']"
  by (simp add: extractTimeSlots_def Set_add_def truthy_def template_text_def
        stat_slot_0910_def stat_empty_start_def)

subsection \<open>The effect\<close>

text \<open>The three ways through \<^verbatim>\<open>fetchDashboardData\<close>.\<close>

lemma fetch_stats_rejected:
  assumes "get_stats api (statsUrl (selectedTimeSlot s)) = Inl e"
  shows "fetchDashboardData api today s
         = (s\<lparr>isLoading := False\<rparr>,
            [ApiGet (statsUrl (selectedTimeSlot s)),
             ConsoleError ''Error fetching dashboard data:'',
             ToastError ''Failed to load dashboard data''])"
  using assms by (simp add: fetchDashboardData_def fetchDashboardData_try_def)

lemma fetch_records_rejected:
  assumes "get_stats api (statsUrl (selectedTimeSlot s)) = Inr d"
      and "get_records api (attendanceUrl today (selectedTimeSlot s)) = Inl e"
  shows "fetchDashboardData api today s
         = (s\<lparr>stats := Some d, timeSlots := extractTimeSlots d, isLoading := False\<rparr>,
            [ApiGet (statsUrl (selectedTimeSlot s)),
             ApiGet (attendanceUrl today (selectedTimeSlot s)),
             ConsoleError ''Error fetching dashboard data:'',
             ToastError ''Failed to load dashboard data''])"
  using assms by (simp add: fetchDashboardData_def fetchDashboardData_try_def)

lemma fetch_fulfilled:
  assumes "get_stats api (statsUrl (selectedTimeSlot s)) = Inr d"
      and "get_records api (attendanceUrl today (selectedTimeSlot s)) = Inr r"
  shows "fetchDashboardData api today s
         = (s\<lparr>stats := Some d, recentAttendance := r, isLoading := False,
               timeSlots := extractTimeSlots d\<rparr>,
            [ApiGet (statsUrl (selectedTimeSlot s)),
             ApiGet (attendanceUrl today (selectedTimeSlot s))])"
  using assms by (simp add: fetchDashboardData_def fetchDashboardData_try_def)

lemma fetch_timeSlots:
  assumes "get_stats api (statsUrl (selectedTimeSlot s)) = Inr d"
  shows "timeSlots (fst (fetchDashboardData api today s)) = extractTimeSlots d"
proof (cases "get_records api (attendanceUrl today (selectedTimeSlot s))")
  case (Inl e)
  with assms show ?thesis by (simp add: fetch_records_rejected)
next
  case (Inr r)
  with assms show ?thesis by (simp add: fetch_fulfilled)
qed

lemma api_up_stats:
  "get_stats api_up url = Inr [stat_slot_0910, stat_empty_start, stat_slot_0910]"
  by (simp add: api_up_def)

text \<open>
  Claim C4, as stated: when the fetch fails, no state but the loading flag changes. The two
  requests are awaited one after the other and \<^verbatim>\<open>setStats\<close> and \<^verbatim>\<open>setTimeSlots\<close> run between
  them: when the stats request is answered and the records request is rejected, the stats and
  the options of the new response are in the state.
\<close>

theorem fetch_not_atomic_counterexample:
  "get_records api_records_down (attendanceUrl ''2024-01-15'' (selectedTimeSlot initial_state))
     = Inl NetworkError
   \<and> stats initial_state = None
   \<and> stats (fst (fetchDashboardData api_records_down ''2024-01-15'' initial_state))
       = Some [stat_slot_0910]
   \<and> timeSlots initial_state = []
   \<and> timeSlots (fst (fetchDashboardData api_records_down ''2024-01-15'' initial_state))
       = [''09:00-10:00'']"
proof -
  have s: "get_stats api_records_down (statsUrl (selectedTimeSlot initial_state))
             = Inr [stat_slot_0910]"
    by (simp add: api_records_down_def)
  have r: "get_records api_records_down (attendanceUrl ''2024-01-15'' (selectedTimeSlot initial_state))
             = Inl NetworkError"
    by (simp add: api_records_down_def)
  have slots: "extractTimeSlots [stat_slot_0910] = [''09:00-10:00'']"
    by (simp add: extractTimeSlots_def Set_add_def truthy_def template_text_def stat_slot_0910_def)
  show ?thesis
    by (simp add: fetch_records_rejected [OF s r] r slots) (simp add: initial_state_def)
qed

text \<open>
  Claim C4, amended. When the fetch fails, exactly one error notification is emitted and the
  loading flag is false afterwards. When the stats request is the one rejected, nothing else
  of the state changes. When the stats request is answered and the records request is rejected,
  the stats and the time-slot options are those of the new response, and today's records, the
  selected filter and the refresh counter are unchanged.
\<close>

theorem fetch_failure:
  "(get_stats api (statsUrl (selectedTimeSlot s)) = Inl e \<longrightarrow>
      fst (fetchDashboardData api today s) = s\<lparr>isLoading := False\<rparr>
    \<and> filter is_toast (snd (fetchDashboardData api today s))
        = [ToastError ''Failed to load dashboard data''])
   \<and> (get_stats api (statsUrl (selectedTimeSlot s)) = Inr d
      \<and> get_records api (attendanceUrl today (selectedTimeSlot s)) = Inl e \<longrightarrow>
        fst (fetchDashboardData api today s)
          = s\<lparr>stats := Some d, timeSlots := extractTimeSlots d, isLoading := False\<rparr>
      \<and> recentAttendance (fst (fetchDashboardData api today s)) = recentAttendance s
      \<and> isLoading (fst (fetchDashboardData api today s)) = False
      \<and> filter is_toast (snd (fetchDashboardData api today s))
          = [ToastError ''Failed to load dashboard data''])"
  by (simp add: fetch_stats_rejected fetch_records_rejected)

text \<open>A backend that rejects every request, and one that rejects the records request only.\<close>

theorem fetch_failure_example:
  "get_stats api_down (statsUrl (selectedTimeSlot initial_state)) = Inl (HttpStatus 500)
   \<and> fst (fetchDashboardData api_down ''2024-01-15'' initial_state)
       = initial_state\<lparr>isLoading := False\<rparr>
   \<and> filter is_toast (snd (fetchDashboardData api_down ''2024-01-15'' initial_state))
       = [ToastError ''Failed to load dashboard data'']
   \<and> get_stats api_records_down (statsUrl (selectedTimeSlot initial_state)) = Inr [stat_slot_0910]
   \<and> get_records api_records_down (attendanceUrl ''2024-01-15'' (selectedTimeSlot initial_state))
       = Inl NetworkError
   \<and> fst (fetchDashboardData api_records_down ''2024-01-15'' initial_state)
       = initial_state\<lparr>stats := Some [stat_slot_0910],
                        timeSlots := extractTimeSlots [stat_slot_0910], isLoading := False\<rparr>
   \<and> filter is_toast (snd (fetchDashboardData api_records_down ''2024-01-15'' initial_state))
       = [ToastError ''Failed to load dashboard data'']"
proof -
  have a: "get_stats api_down (statsUrl (selectedTimeSlot initial_state)) = Inl (HttpStatus 500)"
    by (simp add: api_down_def)
  have s: "get_stats api_records_down (statsUrl (selectedTimeSlot initial_state))
             = Inr [stat_slot_0910]"
    by (simp add: api_records_down_def)
  have r: "get_records api_records_down (attendanceUrl ''2024-01-15'' (selectedTimeSlot initial_state))
             = Inl NetworkError"
    by (simp add: api_records_down_def)
  from a s r
    fetch_failure [of api_down initial_state "HttpStatus 500" "''2024-01-15''" "[]"]
    fetch_failure [of api_records_down initial_state NetworkError "''2024-01-15''" "[stat_slot_0910]"]
  show ?thesis by simp
qed

text \<open>
  Claim C5, as stated: after a stats request that was answered, the options are exactly the
  strings \<^verbatim>\<open>{startTime}-{endTime}\<close> of the pairs that occur in the response. An entry whose
  \<^verbatim>\<open>startTime\<close> is the empty string and whose \<^verbatim>\<open>endTime\<close> is \<^verbatim>\<open>10:00\<close> carries the pair, and the
  string \<^verbatim>\<open>-10:00\<close> is not an option: the guard \<^verbatim>\<open>stat.startTime && stat.endTime\<close> is false
  for it.
\<close>

theorem timeSlots_empty_start_counterexample:
  "get_stats api_up (statsUrl (selectedTimeSlot initial_state))
     = Inr [stat_slot_0910, stat_empty_start, stat_slot_0910]
   \<and> startTime stat_empty_start = Some ''''
   \<and> endTime stat_empty_start = Some ''10:00''
   \<and> '''' @ ''-'' @ ''10:00'' \<notin> set (timeSlots (fst (fetchDashboardData api_up ''2024-01-15'' initial_state)))"
proof -
  have "timeSlots (fst (fetchDashboardData api_up ''2024-01-15'' initial_state)) = [''09:00-10:00'']"
    by (simp add: fetch_timeSlots [OF api_up_stats] extractTimeSlots_sample)
  then show ?thesis
    by (simp add: api_up_stats stat_empty_start_def)
qed

text \<open>
  Claim C5, amended. After a stats request that was answered, the options are exactly the
  strings \<^verbatim>\<open>{startTime}-{endTime}\<close> of the entries of the response in which both fields are
  present and not empty, and no string is there twice.
\<close>

theorem timeSlots_after_stats_fetch:
  assumes "get_stats api (statsUrl (selectedTimeSlot s)) = Inr d"
  shows "set (timeSlots (fst (fetchDashboardData api today s)))
           = {a @ ''-'' @ b | a b. a \<noteq> [] \<and> b \<noteq> []
                \<and> (\<exists>stat\<in>set d. startTime stat = Some a \<and> endTime stat = Some b)}
       \<and> distinct (timeSlots (fst (fetchDashboardData api today s)))"
  by (simp only: fetch_timeSlots [OF assms] set_extractTimeSlots distinct_extractTimeSlots simp_thms)

text \<open>A response of three entries: one slot twice, and an entry with an empty start time.\<close>

theorem timeSlots_after_stats_fetch_example:
  "get_stats api_up (statsUrl (selectedTimeSlot initial_state))
     = Inr [stat_slot_0910, stat_empty_start, stat_slot_0910]
   \<and> timeSlots (fst (fetchDashboardData api_up ''2024-01-15'' initial_state)) = [''09:00-10:00'']
   \<and> set (timeSlots (fst (fetchDashboardData api_up ''2024-01-15'' initial_state)))
       = {a @ ''-'' @ b | a b. a \<noteq> [] \<and> b \<noteq> []
            \<and> (\<exists>stat\<in>set [stat_slot_0910, stat_empty_start, stat_slot_0910].
                  startTime stat = Some a \<and> endTime stat = Some b)}
   \<and> distinct (timeSlots (fst (fetchDashboardData api_up ''2024-01-15'' initial_state)))"
proof -
  have "timeSlots (fst (fetchDashboardData api_up ''2024-01-15'' initial_state)) = [''09:00-10:00'']"
    by (simp add: fetch_timeSlots [OF api_up_stats] extractTimeSlots_sample)
  with timeSlots_after_stats_fetch [where api = api_up and s = initial_state
         and today = "''2024-01-15''", OF api_up_stats]
  show ?thesis
    by (simp only: api_up_stats simp_thms)
qed

text \<open>
  Claim C10. The options after an answered stats request are computed from the response by
  \<^verbatim>\<open>extractTimeSlots\<close>. An entry whose \<^verbatim>\<open>startTime\<close> or \<^verbatim>\<open>endTime\<close> is missing or the empty
  string is skipped: the options are those of the response without it, and nothing is raised
  or reported. Every option comes from an entry with both fields present and not empty.
\<close>

theorem timeSlots_need_both_times:
  "(get_stats api (statsUrl (selectedTimeSlot s)) = Inr d \<longrightarrow>
      timeSlots (fst (fetchDashboardData api today s)) = extractTimeSlots d)
   \<and> (startTime stat = None \<or> startTime stat = Some '''' \<or> endTime stat = None
        \<or> endTime stat = Some '''' \<longrightarrow>
      extractTimeSlots (before @ stat # after) = extractTimeSlots (before @ after))
   \<and> (slot \<in> set (extractTimeSlots response) \<longrightarrow>
      (\<exists>entry\<in>set response. \<exists>a b. startTime entry = Some a \<and> a \<noteq> [] \<and> endTime entry = Some b
          \<and> b \<noteq> [] \<and> slot = a @ ''-'' @ b))"
proof (intro conjI impI)
  assume "get_stats api (statsUrl (selectedTimeSlot s)) = Inr d"
  then show "timeSlots (fst (fetchDashboardData api today s)) = extractTimeSlots d"
    by (rule fetch_timeSlots)
next
  assume "startTime stat = None \<or> startTime stat = Some '''' \<or> endTime stat = None
            \<or> endTime stat = Some ''''"
  then have "\<not> (truthy (startTime stat) \<and> truthy (endTime stat))"
    by (auto simp: truthy_def)
  then show "extractTimeSlots (before @ stat # after) = extractTimeSlots (before @ after)"
    by (rule extractTimeSlots_skip)
next
  assume "slot \<in> set (extractTimeSlots response)"
  then show "\<exists>entry\<in>set response. \<exists>a b. startTime entry = Some a \<and> a \<noteq> [] \<and> endTime entry = Some b
          \<and> b \<noteq> [] \<and> slot = a @ ''-'' @ b"
    unfolding set_extractTimeSlots by blast
qed

text \<open>The entry with the empty start time, between two entries of the slot 09:00 to 10:00.\<close>

theorem timeSlots_need_both_times_example:
  "get_stats api_up (statsUrl (selectedTimeSlot initial_state))
     = Inr [stat_slot_0910, stat_empty_start, stat_slot_0910]
   \<and> timeSlots (fst (fetchDashboardData api_up ''2024-01-15'' initial_state))
       = extractTimeSlots [stat_slot_0910, stat_empty_start, stat_slot_0910]
   \<and> startTime stat_empty_start = Some ''''
   \<and> extractTimeSlots ([stat_slot_0910] @ stat_empty_start # [stat_slot_0910])
       = extractTimeSlots ([stat_slot_0910] @ [stat_slot_0910])
   \<and> ''09:00-10:00'' \<in> set (extractTimeSlots [stat_slot_0910, stat_empty_start, stat_slot_0910])
   \<and> (\<exists>entry\<in>set [stat_slot_0910, stat_empty_start, stat_slot_0910].
         \<exists>a b. startTime entry = Some a \<and> a \<noteq> [] \<and> endTime entry = Some b \<and> b \<noteq> []
           \<and> ''09:00-10:00'' = a @ ''-'' @ b)"
proof -
  have start: "startTime stat_empty_start = Some ''''"
    by (simp add: stat_empty_start_def)
  have member: "''09:00-10:00'' \<in> set (extractTimeSlots [stat_slot_0910, stat_empty_start, stat_slot_0910])"
    by (simp add: extractTimeSlots_sample)
  from timeSlots_need_both_times
         [of api_up initial_state "[stat_slot_0910, stat_empty_start, stat_slot_0910]"
             "''2024-01-15''" stat_empty_start "[stat_slot_0910]" "[stat_slot_0910]"
             "''09:00-10:00''" "[stat_slot_0910, stat_empty_start, stat_slot_0910]"]
       api_up_stats start member
  show ?thesis by blast
qed

subsection \<open>The interval callback\<close>

text \<open>
  Claim C7. A tick of the interval whose request is answered replaces today's records and
  leaves the stats, the time-slot options, the selected filter and the loading flag as they
  were; a tick whose request is rejected leaves the whole state as it was and writes one line
  to the console. No tick emits a notification.
\<close>

theorem refreshInterval_tick_frame:
  "(get_records api (attendanceUrl today (selectedTimeSlot s)) = Inr r \<longrightarrow>
      fst (refreshInterval_tick api today s) = s\<lparr>recentAttendance := r\<rparr>
    \<and> stats (fst (refreshInterval_tick api today s)) = stats s
    \<and> timeSlots (fst (refreshInterval_tick api today s)) = timeSlots s
    \<and> selectedTimeSlot (fst (refreshInterval_tick api today s)) = selectedTimeSlot s
    \<and> isLoading (fst (refreshInterval_tick api today s)) = isLoading s
    \<and> filter is_toast (snd (refreshInterval_tick api today s)) = [])
   \<and> (get_records api (attendanceUrl today (selectedTimeSlot s)) = Inl e \<longrightarrow>
      fst (refreshInterval_tick api today s) = s
    \<and> snd (refreshInterval_tick api today s)
        = [ApiGet (attendanceUrl today (selectedTimeSlot s)),
           ConsoleError ''Error refreshing attendance data:'']
    \<and> filter is_toast (snd (refreshInterval_tick api today s)) = [])"
  by (simp add: refreshInterval_tick_def)

text \<open>One tick against a backend that answers, one against a backend that rejects.\<close>

theorem refreshInterval_tick_frame_example:
  "get_records api_up (attendanceUrl ''2024-01-15'' (selectedTimeSlot initial_state))
     = Inr [record_absent]
   \<and> fst (refreshInterval_tick api_up ''2024-01-15'' initial_state)
       = initial_state\<lparr>recentAttendance := [record_absent]\<rparr>
   \<and> filter is_toast (snd (refreshInterval_tick api_up ''2024-01-15'' initial_state)) = []
   \<and> get_records api_down (attendanceUrl ''2024-01-15'' (selectedTimeSlot initial_state))
       = Inl (HttpStatus 500)
   \<and> fst (refreshInterval_tick api_down ''2024-01-15'' initial_state) = initial_state
   \<and> filter is_toast (snd (refreshInterval_tick api_down ''2024-01-15'' initial_state)) = []"
proof -
  have up: "get_records api_up (attendanceUrl ''2024-01-15'' (selectedTimeSlot initial_state))
              = Inr [record_absent]"
    by (simp add: api_up_def)
  have down: "get_records api_down (attendanceUrl ''2024-01-15'' (selectedTimeSlot initial_state))
              = Inl (HttpStatus 500)"
    by (simp add: api_down_def)
  from up down
    refreshInterval_tick_frame
      [where api = api_up and today = "''2024-01-15''" and s = initial_state
         and r = "[record_absent]"]
    refreshInterval_tick_frame
      [where api = api_down and today = "''2024-01-15''" and s = initial_state
         and e = "HttpStatus 500"]
  show ?thesis by simp
qed

subsection \<open>The refresh button\<close>

text \<open>
  Claim C8. A click on the refresh button issues the stats request and the records request,
  both whatever the outcome of the other. When both are answered, the stats and today's records
  are replaced and one success notification is emitted; when one of them is rejected, neither
  array changes and one error notification is emitted. In every case the loading flag is false
  once the requests have settled.
\<close>

theorem refresh_onClick_outcomes:
  "take 2 (snd (refresh_onClick api today s))
     = [ApiGet (statsUrl (selectedTimeSlot s)), ApiGet (attendanceUrl today (selectedTimeSlot s))]
   \<and> isLoading (fst (refresh_onClick api today s)) = False
   \<and> (get_stats api (statsUrl (selectedTimeSlot s)) = Inr d
      \<and> get_records api (attendanceUrl today (selectedTimeSlot s)) = Inr r \<longrightarrow>
        fst (refresh_onClick api today s)
          = s\<lparr>stats := Some d, recentAttendance := r, isLoading := False,
               refreshKey := refreshKey s + 1\<rparr>
      \<and> stats (fst (refresh_onClick api today s)) = Some d
      \<and> recentAttendance (fst (refresh_onClick api today s)) = r
      \<and> filter is_toast (snd (refresh_onClick api today s)) = [ToastSuccess ''Dashboard refreshed''])
   \<and> (isl (get_stats api (statsUrl (selectedTimeSlot s)))
      \<or> isl (get_records api (attendanceUrl today (selectedTimeSlot s))) \<longrightarrow>
        fst (refresh_onClick api today s)
          = s\<lparr>isLoading := False, refreshKey := refreshKey s + 1\<rparr>
      \<and> stats (fst (refresh_onClick api today s)) = stats s
      \<and> recentAttendance (fst (refresh_onClick api today s)) = recentAttendance s
      \<and> filter is_toast (snd (refresh_onClick api today s)) = [ToastError ''Failed to refresh data''])"
  by (cases "get_stats api (statsUrl (selectedTimeSlot s))";
      cases "get_records api (attendanceUrl today (selectedTimeSlot s))")
     (simp_all add: refresh_onClick_def)

text \<open>A backend that answers both requests, and one that rejects the records request.\<close>

theorem refresh_onClick_outcomes_example:
  "get_stats api_up (statsUrl (selectedTimeSlot initial_state))
     = Inr [stat_slot_0910, stat_empty_start, stat_slot_0910]
   \<and> get_records api_up (attendanceUrl ''2024-01-15'' (selectedTimeSlot initial_state))
       = Inr [record_absent]
   \<and> stats (fst (refresh_onClick api_up ''2024-01-15'' initial_state))
       = Some [stat_slot_0910, stat_empty_start, stat_slot_0910]
   \<and> recentAttendance (fst (refresh_onClick api_up ''2024-01-15'' initial_state)) = [record_absent]
   \<and> filter is_toast (snd (refresh_onClick api_up ''2024-01-15'' initial_state))
       = [ToastSuccess ''Dashboard refreshed'']
   \<and> isLoading (fst (refresh_onClick api_up ''2024-01-15'' initial_state)) = False
   \<and> isl (get_records api_records_down (attendanceUrl ''2024-01-15'' (selectedTimeSlot initial_state)))
   \<and> stats (fst (refresh_onClick api_records_down ''2024-01-15'' initial_state)) = None
   \<and> filter is_toast (snd (refresh_onClick api_records_down ''2024-01-15'' initial_state))
       = [ToastError ''Failed to refresh data'']
   \<and> isLoading (fst (refresh_onClick api_records_down ''2024-01-15'' initial_state)) = False"
proof -
  have up: "get_records api_up (attendanceUrl ''2024-01-15'' (selectedTimeSlot initial_state))
              = Inr [record_absent]"
    by (simp add: api_up_def)
  have down: "isl (get_records api_records_down
                     (attendanceUrl ''2024-01-15'' (selectedTimeSlot initial_state)))"
    by (simp add: api_records_down_def)
  have init: "stats initial_state = None"
    by (simp add: initial_state_def)
  from up down init api_up_stats [of "statsUrl (selectedTimeSlot initial_state)"]
    refresh_onClick_outcomes
      [where api = api_up and today = "''2024-01-15''" and s = initial_state
         and d = "[stat_slot_0910, stat_empty_start, stat_slot_0910]" and r = "[record_absent]"]
    refresh_onClick_outcomes
      [where api = api_records_down and today = "''2024-01-15''" and s = initial_state]
  show ?thesis by simp
qed

subsection \<open>The requests\<close>









subsection \<open>The admin link\<close>

text \<open>
  Claim C9, as stated: the link is rendered if and only if the user exists and has the role
  \<^verbatim>\<open>admin\<close>. The link is part of the content branch of \<^verbatim>\<open>isLoading ? spinner : content\<close>: in
  the initial state, where the loading flag is set, an admin sees the spinner and no link.
\<close>

theorem adminLink_loading_counterexample:
  "role admin_user = Some ''admin''
   \<and> isLoading initial_state
   \<and> \<not> adminLinkRendered initial_state (Some admin_user)"
  by (simp add: adminLinkRendered_def admin_user_def initial_state_def)

text \<open>
  Claim C9, amended. The admin link is rendered if and only if the loading flag is false and
  the user object exists and its role is the string \<^verbatim>\<open>admin\<close>: not for \<^verbatim>\<open>null\<close>, not for a
  user without a role, not for any other role, and for no user while the view is loading.
\<close>

theorem adminLink_iff:
  "adminLinkRendered s user
     \<longleftrightarrow> \<not> isLoading s \<and> (\<exists>u. user = Some u \<and> role u = Some ''admin'')"
  by (cases user) (simp_all add: adminLinkRendered_def)

text \<open>An admin, a teacher, a user without role and no user, after loading; an admin while loading.\<close>

theorem adminLink_iff_example:
  "adminLinkRendered loaded_state (Some admin_user)
   \<and> \<not> adminLinkRendered loaded_state (Some \<lparr>role = Some ''teacher''\<rparr>)
   \<and> \<not> adminLinkRendered loaded_state (Some \<lparr>role = None\<rparr>)
   \<and> \<not> adminLinkRendered loaded_state None
   \<and> \<not> adminLinkRendered initial_state (Some admin_user)"
  by (simp add: adminLink_iff loaded_state_def initial_state_def admin_user_def)

end
